theory Spec2Isabelle
  imports Complex_Main "HOL-Library.Stream" "HOL-Library.Sublist"
begin

section \<open>Data model\<close>

text \<open>
  The price-combination search engine of the repository lives in two Python files:
  \<^verbatim>\<open>PricingMaster.py\<close> (the basic variant; its functions carry the prefix \<open>PM_\<close>
  here) and \<^verbatim>\<open>appPricingBoletos.py\<close> (the variant with pinned end points; prefix
  \<open>APB_\<close>). Both define a function \<^verbatim>\<open>generate_candidate_prices\<close>, hence the prefixes.

  Prices, rates, revenues and the margin factor are Python floats. They are modelled as
  the real numbers they approximate: \<open>+\<close>, \<open>-\<close>, \<open>*\<close>, \<open>/\<close> and the comparisons are
  the exact ones, so rounding errors of binary floating point, infinities and NaN are
  outside the model. A float division by zero raises \<^verbatim>\<open>ZeroDivisionError\<close> in Python;
  that is a branch of the model.
\<close>

datatype py_error = ZeroDivisionError

text \<open>A section is the dictionary \<^verbatim>\<open>{'name': name, 'seats': seats}\<close>.\<close>

record section_rec =
  name :: string
  seats :: int

text \<open>
  \<^verbatim>\<open>round(x, 2)\<close>: the multiple of \<open>1/100\<close> nearest to \<open>x\<close>; a value exactly half way
  between two of them goes to the one whose last digit is even. Python rounds the exact
  value of the binary float this way; the model rounds the real number.
\<close>

definition round_half_even :: "real \<Rightarrow> int" where
  "round_half_even x =
     (let f = \<lfloor>x\<rfloor>; d = x - of_int f
      in if d < 1 / 2 then f
         else if 1 / 2 < d then f + 1
         else if even f then f else f + 1)"

definition round2 :: "real \<Rightarrow> real" where
  "round2 x = of_int (round_half_even (x * 100)) / 100"

text \<open>\<^verbatim>\<open>d.get(k, default)\<close> on a dictionary.\<close>

definition dict_get :: "('k \<rightharpoonup> 'v) \<Rightarrow> 'k \<Rightarrow> 'v \<Rightarrow> 'v" where
  "dict_get d k dflt = (case d k of None \<Rightarrow> dflt | Some v \<Rightarrow> v)"

section \<open>Candidate generator\<close>

text \<open>
  \<^verbatim>\<open>PricingMaster.generate_candidate_prices\<close>. The slices are \<open>candidates[6:]\<close>,
  \<open>candidates[3:6]\<close> and \<open>candidates[:3]\<close>. The degenerate case is tested with \<open>==\<close>.
\<close>

definition PM_generate_candidate_prices :: "real \<Rightarrow> real \<Rightarrow> string \<Rightarrow> real list" where
  "PM_generate_candidate_prices global_min global_max scenario =
     (let num_candidates = (9 :: nat) in
      if global_max = global_min then [global_min]
      else
        let step = (global_max - global_min) / real (num_candidates - 1);
            candidates = map (\<lambda>i. round2 (global_min + real i * step)) [0..<num_candidates]
        in if scenario = ''alta'' then drop 6 candidates
           else if scenario = ''moderada'' then take (6 - 3) (drop 3 candidates)
           else if scenario = ''baja'' then take 3 candidates
           else candidates)"

text \<open>
  \<^verbatim>\<open>appPricingBoletos.generate_candidate_prices\<close>. The degenerate case is tested with
  \<open><=\<close>, and the window is looked up in a dictionary whose default is the whole grid.
\<close>

definition APB_generate_candidate_prices :: "real \<Rightarrow> real \<Rightarrow> string \<Rightarrow> real list" where
  "APB_generate_candidate_prices global_min global_max scenario =
     (let num_candidates = (9 :: nat) in
      if global_max \<le> global_min then [global_min]
      else
        let step = (global_max - global_min) / real (num_candidates - 1);
            candidates = map (\<lambda>i. round2 (global_min + real i * step)) [0..<num_candidates];
            scenario_ranges =
              [''alta'' \<mapsto> drop 6 candidates,
               ''moderada'' \<mapsto> take (6 - 3) (drop 3 candidates),
               ''baja'' \<mapsto> take 3 candidates]
        in dict_get scenario_ranges scenario candidates)"

text \<open>
  The grid and its windows in the words of the specification: nine points
  \<open>round(global_min + i * (global_max - global_min) / 8, 2)\<close> for \<open>i\<close> from 0 to 8, of
  which a scenario selects the indices 6 to 8, 3 to 5, 0 to 2, or all.
\<close>

definition spec_grid :: "real \<Rightarrow> real \<Rightarrow> real list" where
  "spec_grid global_min global_max =
     map (\<lambda>i. round2 (global_min + real i * (global_max - global_min) / 8)) [0, 1, 2, 3, 4, 5, 6, 7, 8]"

definition spec_window :: "string \<Rightarrow> real list \<Rightarrow> real list" where
  "spec_window scenario grid =
     (if scenario = ''alta'' then [grid ! 6, grid ! 7, grid ! 8]
      else if scenario = ''moderada'' then [grid ! 3, grid ! 4, grid ! 5]
      else if scenario = ''baja'' then [grid ! 0, grid ! 1, grid ! 2]
      else grid)"

section \<open>Constraint checker\<close>

text \<open>
  The margin test that the four search functions inline:
  \<^verbatim>\<open>all(combo[i] >= margin_factor * combo[i+1] for i in range(len(combo)-1))\<close>.
  \<open>range\<close> of a number below 1 is empty.
\<close>

definition is_valid :: "real list \<Rightarrow> real \<Rightarrow> bool" where
  "is_valid combo margin_factor =
     list_all (\<lambda>i. combo ! i \<ge> margin_factor * combo ! (i + 1))
       [0..<nat (int (length combo) - 1)]"

text \<open>The constraint in the words of the specification.\<close>

definition spec_is_valid :: "real list \<Rightarrow> real \<Rightarrow> bool" where
  "spec_is_valid vector margin_factor =
     (\<forall>i. i + 1 < length vector \<longrightarrow> vector ! i \<ge> margin_factor * vector ! (i + 1))"

section \<open>Exhaustive search\<close>

text \<open>
  \<^verbatim>\<open>itertools.product(*pools)\<close>, as the Python documentation defines it: starting from
  the one empty tuple, every pool in turn extends every tuple built so far by each of
  its elements (\<^verbatim>\<open>result = [x+[y] for x in result for y in pool]\<close>).
  \<^verbatim>\<open>itertools.islice(it, stop)\<close> yields the first \<open>stop\<close> elements of \<open>it\<close>.
\<close>

definition itertools_product :: "'a list list \<Rightarrow> 'a list list" where
  "itertools_product pools =
     foldl (\<lambda>result pool. concat (map (\<lambda>x. map (\<lambda>y. x @ [y]) pool) result)) [[]] pools"

definition islice :: "'a list \<Rightarrow> nat \<Rightarrow> 'a list" where
  "islice it stop = take stop it"

text \<open>
  The loop \<^verbatim>\<open>for combo in ...: if all(...): valid.append(combo)\<close> of both exhaustive
  searches; the last argument is the list built so far.
\<close>

fun collect_valid :: "real \<Rightarrow> real list list \<Rightarrow> real list list \<Rightarrow> real list list" where
  "collect_valid margin_factor [] valid = valid"
| "collect_valid margin_factor (combo # rest) valid =
     collect_valid margin_factor rest
       (if is_valid combo margin_factor then valid @ [combo] else valid)"

text \<open>\<^verbatim>\<open>PricingMaster.generate_combinations\<close>: its candidate lists, then the function.\<close>

definition PM_candidate_lists :: "section_rec list \<Rightarrow> string \<Rightarrow> real \<Rightarrow> real \<Rightarrow> real list list" where
  "PM_candidate_lists sections scenario global_min global_max =
     (let get_candidates = (\<lambda>i :: nat. PM_generate_candidate_prices global_min global_max scenario)
      in map get_candidates [0..<length sections])"

definition PM_generate_combinations ::
  "section_rec list \<Rightarrow> string \<Rightarrow> real \<Rightarrow> real \<Rightarrow> real \<Rightarrow> real list list" where
  "PM_generate_combinations sections scenario global_min global_max margin_factor =
     (let candidate_lists = PM_candidate_lists sections scenario global_min global_max
      in collect_valid margin_factor (islice (itertools_product candidate_lists) 100000) [])"

text \<open>
  \<^verbatim>\<open>appPricingBoletos.generate_valid_combinations\<close>: its first loop builds the candidate
  lists, with the test \<open>i == 0\<close> before the test \<open>i == len(sections)-1\<close>; its second
  loop is the one above.
\<close>

definition APB_candidates :: "section_rec list \<Rightarrow> string \<Rightarrow> real \<Rightarrow> real \<Rightarrow> real list list" where
  "APB_candidates sections scenario global_min global_max =
     map (\<lambda>i. if i = 0 then [round2 global_max]
              else if int i = int (length sections) - 1 then [round2 global_min]
              else APB_generate_candidate_prices global_min global_max scenario)
       [0..<length sections]"

definition APB_generate_valid_combinations ::
  "section_rec list \<Rightarrow> string \<Rightarrow> real \<Rightarrow> real \<Rightarrow> real \<Rightarrow> real list list" where
  "APB_generate_valid_combinations sections scenario global_min global_max margin_factor =
     (let candidates = APB_candidates sections scenario global_min global_max
      in collect_valid margin_factor (islice (itertools_product candidates) 100000) [])"

text \<open>
  Lexicographic product order in the words of the specification: the first section
  varies slowest, the last fastest.
\<close>

fun lex_product :: "'a list list \<Rightarrow> 'a list list" where
  "lex_product [] = [[]]"
| "lex_product (pool # pools) = concat (map (\<lambda>x. map (\<lambda>t. x # t) (lex_product pools)) pool)"

section \<open>Revenue model\<close>

text \<open>\<^verbatim>\<open>sum(...)\<close> adds from the left, starting at 0.\<close>

definition py_sum :: "real list \<Rightarrow> real" where
  "py_sum xs = foldl (+) 0 xs"

definition sell_rates :: "string \<rightharpoonup> real" where
  "sell_rates = [''alta'' \<mapsto> 0.98, ''moderada'' \<mapsto> 0.90, ''baja'' \<mapsto> 0.85]"

text \<open>\<^verbatim>\<open>PricingMaster.compute_revenue_for_combo\<close>; \<open>zip\<close> stops at the shorter list.\<close>

definition compute_revenue_for_combo :: "real list \<Rightarrow> section_rec list \<Rightarrow> string \<Rightarrow> real" where
  "compute_revenue_for_combo combo sections scenario =
     (let sell_rate = dict_get sell_rates scenario 0.95
      in py_sum (map (\<lambda>(price, sec). real_of_int (seats sec) * sell_rate * price)
                   (zip combo sections)))"

text \<open>The revenue that \<^verbatim>\<open>appPricingBoletos.heuristic_price_search\<close> computes inline.\<close>

definition APB_revenue :: "real list \<Rightarrow> section_rec list \<Rightarrow> string \<Rightarrow> real" where
  "APB_revenue combo sections scenario =
     py_sum (map (\<lambda>(price, sec). real_of_int (seats sec) * dict_get sell_rates scenario 0.95 * price)
               (zip combo sections))"

text \<open>The sell-through rate of a scenario in the words of the specification.\<close>

definition spec_rate :: "string \<Rightarrow> real" where
  "spec_rate scenario =
     (if scenario = ''alta'' then 0.98
      else if scenario = ''moderada'' then 0.90
      else if scenario = ''baja'' then 0.85
      else 0.95)"

section \<open>Heuristic search\<close>

text \<open>
  The random source is an explicit input: the stream of the successive results of
  \<^verbatim>\<open>random.random()\<close>. \<^verbatim>\<open>random.uniform(a, b)\<close> is \<open>a + (b - a) * random()\<close>; it
  returns the number drawn and leaves the rest of the stream.
\<close>

type_synonym rng = "real stream"

definition random_uniform :: "real \<Rightarrow> real \<Rightarrow> rng \<Rightarrow> real \<times> rng" where
  "random_uniform a b g = (a + (b - a) * shd g, stl g)"

text \<open>
  \<open>best_diff\<close> starts as \<^verbatim>\<open>float('inf')\<close> and is a finite distance afterwards;
  \<open>diff < best_diff\<close> is the comparison of the loop.
\<close>

datatype best_diff = Infinity | Finite real

fun less_best :: "real \<Rightarrow> best_diff \<Rightarrow> bool" where
  "less_best d Infinity = True"
| "less_best d (Finite b) = (d < b)"

text \<open>
  \<^verbatim>\<open>PricingMaster.heuristic_search\<close>. The inner loop \<^verbatim>\<open>for _ in sections\<close> draws one
  price per section; the arguments \<open>prev_price\<close> and \<open>combo\<close> are its two variables.
\<close>

fun PM_build_combo ::
  "section_rec list \<Rightarrow> real \<Rightarrow> real \<Rightarrow> real \<Rightarrow> real list \<Rightarrow> rng \<Rightarrow> py_error + (real list \<times> rng)" where
  "PM_build_combo [] global_min margin_factor prev_price combo g = Inr (combo, g)"
| "PM_build_combo (sec # rest) global_min margin_factor prev_price combo g =
     (if margin_factor = 0 then Inl ZeroDivisionError
      else
        let (price, g') = random_uniform global_min (prev_price / margin_factor) g
        in PM_build_combo rest global_min margin_factor price (combo @ [round2 price]) g')"

text \<open>
  The outer loop, run for the number of trials given first; its variables are
  \<open>best_combo\<close> and \<open>best_diff\<close>. The revenue is computed for the scenario "alta".
\<close>

fun PM_trials ::
  "nat \<Rightarrow> real \<Rightarrow> section_rec list \<Rightarrow> real \<Rightarrow> real \<Rightarrow> real \<Rightarrow> real list option \<times> best_diff \<Rightarrow> rng
   \<Rightarrow> py_error + ((real list option \<times> best_diff) \<times> rng)" where
  "PM_trials 0 target sections global_min global_max margin_factor best g = Inr (best, g)"
| "PM_trials (Suc n) target sections global_min global_max margin_factor (best_combo, best_diff) g =
     (case PM_build_combo sections global_min margin_factor global_max [] g of
        Inl e \<Rightarrow> Inl e
      | Inr (combo, g') \<Rightarrow>
          if is_valid combo margin_factor then
            let revenue = compute_revenue_for_combo combo sections ''alta'';
                diff = \<bar>revenue - target\<bar>
            in if less_best diff best_diff
               then PM_trials n target sections global_min global_max margin_factor
                      (Some combo, Finite diff) g'
               else PM_trials n target sections global_min global_max margin_factor
                      (best_combo, best_diff) g'
          else PM_trials n target sections global_min global_max margin_factor
                 (best_combo, best_diff) g')"

text \<open>The function returns \<open>best_combo\<close>; the model returns the random source left with it.\<close>

definition PM_heuristic_search ::
  "real \<Rightarrow> section_rec list \<Rightarrow> real \<Rightarrow> real \<Rightarrow> real \<Rightarrow> rng \<Rightarrow> py_error + (real list option \<times> rng)" where
  "PM_heuristic_search target sections global_min global_max margin_factor g =
     (case PM_trials 10000 target sections global_min global_max margin_factor (None, Infinity) g of
        Inl e \<Rightarrow> Inl e
      | Inr ((best_combo, best_diff), g') \<Rightarrow> Inr (best_combo, g'))"

text \<open>
  \<^verbatim>\<open>appPricingBoletos.heuristic_price_search\<close>. The inner loop
  \<^verbatim>\<open>for _ in range(len(sections)-2)\<close> draws the interior prices; its first argument is
  the number of rounds left.
\<close>

fun APB_interior ::
  "nat \<Rightarrow> real \<Rightarrow> real \<Rightarrow> real \<Rightarrow> real list \<Rightarrow> rng \<Rightarrow> py_error + (real list \<times> rng)" where
  "APB_interior 0 global_min margin_factor prev_price combo g = Inr (combo, g)"
| "APB_interior (Suc k) global_min margin_factor prev_price combo g =
     (if margin_factor = 0 then Inl ZeroDivisionError
      else
        let min_price = max global_min (prev_price / margin_factor * 0.95);
            max_price = prev_price / margin_factor;
            (price, g') = random_uniform min_price max_price g
        in APB_interior k global_min margin_factor price (combo @ [round2 price]) g')"

text \<open>One trial: first section fixed, interior sections drawn, last section fixed.\<close>

definition APB_build_combo ::
  "section_rec list \<Rightarrow> real \<Rightarrow> real \<Rightarrow> real \<Rightarrow> rng \<Rightarrow> py_error + (real list \<times> rng)" where
  "APB_build_combo sections global_min global_max margin_factor g =
     (case APB_interior (nat (int (length sections) - 2)) global_min margin_factor global_max
             [round2 global_max] g of
        Inl e \<Rightarrow> Inl e
      | Inr (combo, g') \<Rightarrow> Inr (combo @ [round2 global_min], g'))"

fun APB_trials ::
  "nat \<Rightarrow> real \<Rightarrow> section_rec list \<Rightarrow> real \<Rightarrow> real \<Rightarrow> real \<Rightarrow> string
   \<Rightarrow> real list option \<times> best_diff \<Rightarrow> rng \<Rightarrow> py_error + ((real list option \<times> best_diff) \<times> rng)" where
  "APB_trials 0 target sections global_min global_max margin_factor scenario best g = Inr (best, g)"
| "APB_trials (Suc n) target sections global_min global_max margin_factor scenario
     (best_combo, best_diff) g =
     (case APB_build_combo sections global_min global_max margin_factor g of
        Inl e \<Rightarrow> Inl e
      | Inr (combo, g') \<Rightarrow>
          if is_valid combo margin_factor then
            let revenue = APB_revenue combo sections scenario
            in if less_best \<bar>revenue - target\<bar> best_diff
               then APB_trials n target sections global_min global_max margin_factor scenario
                      (Some combo, Finite \<bar>revenue - target\<bar>) g'
               else APB_trials n target sections global_min global_max margin_factor scenario
                      (best_combo, best_diff) g'
          else APB_trials n target sections global_min global_max margin_factor scenario
                 (best_combo, best_diff) g')"

definition APB_heuristic_price_search ::
  "real \<Rightarrow> section_rec list \<Rightarrow> real \<Rightarrow> real \<Rightarrow> real \<Rightarrow> string \<Rightarrow> rng
   \<Rightarrow> py_error + (real list option \<times> rng)" where
  "APB_heuristic_price_search target sections global_min global_max margin_factor scenario g =
     (case APB_trials 10000 target sections global_min global_max margin_factor scenario
             (None, Infinity) g of
        Inl e \<Rightarrow> Inl e
      | Inr ((best_combo, best_diff), g') \<Rightarrow> Inr (best_combo, g'))"

text \<open>
  The chain that trial number \<open>k\<close> (counted from 0) of each search builds: the chain
  built from the random source as the trials before it left it, every trial drawing one
  number per section (basic variant) or per interior section (improved variant).
\<close>

definition PM_trial :: "section_rec list \<Rightarrow> real \<Rightarrow> real \<Rightarrow> real \<Rightarrow> rng \<Rightarrow> nat \<Rightarrow> real list" where
  "PM_trial sections global_min global_max margin_factor g k =
     (case PM_build_combo sections global_min margin_factor global_max []
             (sdrop (k * length sections) g) of
        Inl e \<Rightarrow> []
      | Inr (combo, g') \<Rightarrow> combo)"

definition APB_trial :: "section_rec list \<Rightarrow> real \<Rightarrow> real \<Rightarrow> real \<Rightarrow> rng \<Rightarrow> nat \<Rightarrow> real list" where
  "APB_trial sections global_min global_max margin_factor g k =
     (case APB_build_combo sections global_min global_max margin_factor
             (sdrop (k * nat (int (length sections) - 2)) g) of
        Inl e \<Rightarrow> []
      | Inr (combo, g') \<Rightarrow> combo)"

text \<open>
  The body of the outer loop of both searches as a function of the chain just built,
  for a revenue function \<open>revenue\<close>.
\<close>

fun best_step ::
  "(real list \<Rightarrow> real) \<Rightarrow> real \<Rightarrow> real \<Rightarrow> real list option \<times> best_diff \<Rightarrow> real list
   \<Rightarrow> real list option \<times> best_diff" where
  "best_step revenue target margin_factor (best_combo, best_diff) combo =
     (if is_valid combo margin_factor \<and> less_best \<bar>revenue combo - target\<bar> best_diff
      then (Some combo, Finite \<bar>revenue combo - target\<bar>)
      else (best_combo, best_diff))"

text \<open>
  The invariant of the outer loop: after the chains \<open>seen\<close>, \<open>best_combo\<close> is none and no
  chain seen passes the margin test, or it is a chain seen that passes with a distance, kept
  in \<open>best_diff\<close>, that no passing chain seen undercuts.
\<close>

definition best_inv ::
  "(real list \<Rightarrow> real) \<Rightarrow> real \<Rightarrow> real \<Rightarrow> real list list \<Rightarrow> real list option \<times> best_diff \<Rightarrow> bool" where
  "best_inv revenue target margin_factor seen best =
     (case fst best of
        None \<Rightarrow> snd best = Infinity \<and> list_all (\<lambda>c. \<not> is_valid c margin_factor) seen
      | Some v \<Rightarrow>
          snd best = Finite \<bar>revenue v - target\<bar> \<and> v \<in> set seen \<and> is_valid v margin_factor \<and>
          list_all (\<lambda>c. \<not> is_valid c margin_factor \<or> \<bar>revenue v - target\<bar> \<le> \<bar>revenue c - target\<bar>) seen)"


section \<open>Ranking\<close>

text \<open>
  The ranking step of \<^verbatim>\<open>appPricingBoletos.main\<close>:
  \<^verbatim>\<open>sorted(combos, key=lambda x: abs(sum(p * s['seats'] * 0.95 for p, s in zip(x, sections)) - target))[:3]\<close>.
  Python's \<open>sorted\<close> is a stable sort by the key, as the insertion sort \<open>sort_key\<close> is.
\<close>

definition ranking_key :: "section_rec list \<Rightarrow> real \<Rightarrow> real list \<Rightarrow> real" where
  "ranking_key sections target x =
     \<bar>py_sum (map (\<lambda>(p, s). p * real_of_int (seats s) * 0.95) (zip x sections)) - target\<bar>"

definition py_sorted :: "'a list \<Rightarrow> ('a \<Rightarrow> real) \<Rightarrow> 'a list" where
  "py_sorted xs key = sort_key key xs"

definition top_combos :: "real list list \<Rightarrow> section_rec list \<Rightarrow> real \<Rightarrow> real list list" where
  "top_combos combos sections target = take 3 (py_sorted combos (ranking_key sections target))"

section \<open>Properties of the candidate generator\<close>

lemma upt_9: "[0..<9] = [0, 1, 2, 3, 4, 5, 6, 7, 8]"
  by (simp add: upt_rec)

lemma PM_candidates_eq_spec:
  "global_max \<noteq> global_min \<Longrightarrow>
   PM_generate_candidate_prices global_min global_max scenario =
     spec_window scenario (spec_grid global_min global_max)"
  by (simp add: PM_generate_candidate_prices_def spec_window_def spec_grid_def upt_9)

lemma APB_candidates_eq_spec:
  "global_min < global_max \<Longrightarrow>
   APB_generate_candidate_prices global_min global_max scenario =
     spec_window scenario (spec_grid global_min global_max)"
  by (simp add: APB_generate_candidate_prices_def spec_window_def spec_grid_def upt_9 dict_get_def)

text \<open>
  Claim C2. Whenever \<open>global_max > global_min\<close>, both candidate generators build the
  nine-point grid of the specification and return its top three points for the
  scenario "alta", its middle three for "moderada", its bottom three for "baja", and the
  whole grid for any other scenario.
\<close>

theorem candidate_prices_window:
  "global_min < global_max \<Longrightarrow>
   PM_generate_candidate_prices global_min global_max scenario =
     spec_window scenario (spec_grid global_min global_max) \<and>
   APB_generate_candidate_prices global_min global_max scenario =
     spec_window scenario (spec_grid global_min global_max) \<and>
   length (spec_grid global_min global_max) = 9"
  using PM_candidates_eq_spec [of global_max global_min scenario]
    APB_candidates_eq_spec [of global_min global_max scenario]
  by (simp add: spec_grid_def)

theorem candidate_prices_window_witness:
  "(50 :: real) < 200 \<and>
   PM_generate_candidate_prices 50 200 ''alta'' = [325 / 2, 725 / 4, 200] \<and>
   APB_generate_candidate_prices 50 200 ''moderada'' = [425 / 4, 125, 575 / 4] \<and>
   APB_generate_candidate_prices 50 200 ''baja'' = [50, 275 / 4, 175 / 2] \<and>
   length (PM_generate_candidate_prices 50 200 ''otra'') = 9"
  using candidate_prices_window [of 50 200 "''alta''"]
    candidate_prices_window [of 50 200 "''moderada''"]
    candidate_prices_window [of 50 200 "''baja''"]
    candidate_prices_window [of 50 200 "''otra''"]
  by (simp add: spec_window_def spec_grid_def round2_def round_half_even_def)

section \<open>Properties of the exhaustive search\<close>

lemma collect_valid_filter:
  "collect_valid mf xs acc = acc @ filter (\<lambda>c. is_valid c mf) xs"
  by (induction xs arbitrary: acc) auto

lemma lex_product_product_lists: "lex_product pools = product_lists pools"
  by (induction pools) auto

lemma extend_pool:
  "concat (map (\<lambda>y. map (\<lambda>t. (x @ [y]) @ t) L) pool)
   = map (\<lambda>t. x @ t) (concat (map (\<lambda>y. map (\<lambda>t. y # t) L) pool))"
  by (induction pool) simp_all

lemma extend_result:
  "concat (map (\<lambda>a. map (\<lambda>t. a @ t) L) (concat (map (\<lambda>x. map (\<lambda>y. x @ [y]) pool) acc)))
   = concat (map (\<lambda>a. map (\<lambda>t. a @ t) (concat (map (\<lambda>y. map (\<lambda>t. y # t) L) pool))) acc)"
  by (induction acc) (simp_all add: extend_pool comp_def del: append_assoc)

lemma product_fold_lex:
  "foldl (\<lambda>result pool. concat (map (\<lambda>x. map (\<lambda>y. x @ [y]) pool) result)) acc pools
   = concat (map (\<lambda>a. map (\<lambda>t. a @ t) (lex_product pools)) acc)"
proof (induction pools arbitrary: acc)
  case Nil
  show ?case by (induction acc) (auto simp: map_idI)
next
  case (Cons pool pools)
  show ?case
    by (simp add: Cons.IH extend_result)
qed

lemma itertools_product_lex: "itertools_product pools = lex_product pools"
  by (simp add: itertools_product_def product_fold_lex map_idI)

lemma is_valid_iff:
  "is_valid v mf \<longleftrightarrow> (\<forall>i. i + 1 < length v \<longrightarrow> v ! i \<ge> mf * v ! (i + 1))"
  by (auto simp: is_valid_def list_all_iff)

lemma PM_candidate_lists_replicate:
  "PM_candidate_lists sections scenario gmin gmax =
     replicate (length sections) (PM_generate_candidate_prices gmin gmax scenario)"
  by (simp add: PM_candidate_lists_def map_replicate_const)

lemma is_valid_Nil: "is_valid [] mf"
  by (simp add: is_valid_def)

lemma is_valid_single: "is_valid [x] mf"
  by (simp add: is_valid_def)

lemma is_valid_Cons2:
  "is_valid (x # y # zs) mf \<longleftrightarrow> x \<ge> mf * y \<and> is_valid (y # zs) mf"
proof -
  have "(\<forall>i. i + 1 < length (x # y # zs) \<longrightarrow> (x # y # zs) ! i \<ge> mf * (x # y # zs) ! (i + 1))
      \<longleftrightarrow> x \<ge> mf * y \<and> (\<forall>i. i + 1 < length (y # zs) \<longrightarrow> (y # zs) ! i \<ge> mf * (y # zs) ! (i + 1))"
    (is "?L \<longleftrightarrow> ?A \<and> ?R")
  proof
    assume L: ?L
    have ?A using L [rule_format, of 0] by simp
    moreover have ?R
    proof (intro allI impI)
      fix i assume "i + 1 < length (y # zs)"
      then show "(y # zs) ! i \<ge> mf * (y # zs) ! (i + 1)"
        using L [rule_format, of "Suc i"] by simp
    qed
    ultimately show "?A \<and> ?R" ..
  next
    assume AR: "?A \<and> ?R"
    show ?L
    proof (intro allI impI)
      fix i assume i: "i + 1 < length (x # y # zs)"
      show "(x # y # zs) ! i \<ge> mf * (x # y # zs) ! (i + 1)"
      proof (cases i)
        case 0
        then show ?thesis using AR by simp
      next
        case (Suc j)
        then show ?thesis using AR i by simp
      qed
    qed
  qed
  then show ?thesis unfolding is_valid_iff .
qed

lemmas is_valid_simps = is_valid_Nil is_valid_single is_valid_Cons2

lemma PM_generate_combinations_filter:
  "PM_generate_combinations sections scenario gmin gmax mf =
     filter (\<lambda>c. is_valid c mf)
       (take 100000 (lex_product (PM_candidate_lists sections scenario gmin gmax)))"
  by (simp add: PM_generate_combinations_def collect_valid_filter islice_def itertools_product_lex)

lemma APB_generate_valid_combinations_filter:
  "APB_generate_valid_combinations sections scenario gmin gmax mf =
     filter (\<lambda>c. is_valid c mf)
       (take 100000 (lex_product (APB_candidates sections scenario gmin gmax)))"
  by (simp add: APB_generate_valid_combinations_def collect_valid_filter islice_def itertools_product_lex)

lemma degenerate_empty:
  "PM_generate_combinations [\<lparr>name = ''A'', seats = 500\<rparr>, \<lparr>name = ''B'', seats = 500\<rparr>] ''alta'' 50 50 1.05 = []"
  by (simp add: PM_generate_combinations_filter PM_candidate_lists_replicate
       PM_generate_candidate_prices_def is_valid_simps)

lemma PM_exhaustive_example: "PM_generate_combinations [\<lparr>name = ''A'', seats = 500\<rparr>, \<lparr>name = ''B'', seats = 500\<rparr>,
   \<lparr>name = ''C'', seats = 500\<rparr>] ''alta'' 50 200 1.05 = [[200, 725 / 4, 325 / 2]]"
  by (simp add: PM_generate_combinations_filter PM_candidate_lists_replicate
      PM_candidates_eq_spec spec_window_def spec_grid_def round2_def round_half_even_def is_valid_simps)

lemma upt_3: "[0..<3] = [0, 1, 2]"
  by (simp add: upt_rec)

lemma APB_exhaustive_example: "APB_generate_valid_combinations [\<lparr>name = ''A'', seats = 500\<rparr>, \<lparr>name = ''B'', seats = 500\<rparr>,
   \<lparr>name = ''C'', seats = 500\<rparr>] ''alta'' 50 200 1.05 = [[200, 325 / 2, 50], [200, 725 / 4, 50]]"
  by (simp add: APB_generate_valid_combinations_filter APB_candidates_def upt_3
      APB_candidates_eq_spec spec_window_def spec_grid_def round2_def round_half_even_def is_valid_simps)

lemma lex_product_nth:
  "v \<in> set (lex_product pools) \<Longrightarrow> length v = length pools \<and> (\<forall>i<length pools. v ! i \<in> set (pools ! i))"
proof (induction pools arbitrary: v)
  case Nil
  then show ?case by simp
next
  case (Cons pool pools)
  then obtain x t where v: "v = x # t" and x: "x \<in> set pool" and t: "t \<in> set (lex_product pools)"
    by auto
  from Cons.IH [OF t] show ?case
    using v x by (auto simp: nth_Cons split: nat.splits)
qed

lemma APB_candidates_pinned:
  assumes "2 \<le> length sections"
  shows "APB_candidates sections scenario gmin gmax =
     [round2 gmax] # replicate (length sections - 2) (APB_generate_candidate_prices gmin gmax scenario)
       @ [[round2 gmin]]"
proof (rule nth_equalityI)
  show "length (APB_candidates sections scenario gmin gmax) =
    length ([round2 gmax] # replicate (length sections - 2)
       (APB_generate_candidate_prices gmin gmax scenario) @ [[round2 gmin]])"
    using assms by (simp add: APB_candidates_def)
next
  fix i assume "i < length (APB_candidates sections scenario gmin gmax)"
  then have i: "i < length sections" by (simp add: APB_candidates_def)
  show "APB_candidates sections scenario gmin gmax ! i =
    ([round2 gmax] # replicate (length sections - 2)
       (APB_generate_candidate_prices gmin gmax scenario) @ [[round2 gmin]]) ! i"
    using i assms by (auto simp: APB_candidates_def nth_Cons nth_append split: nat.splits)
qed

lemma in_exhaustive_PM:
  "v \<in> set (PM_generate_combinations sections scenario gmin gmax mf) \<Longrightarrow>
   is_valid v mf \<and> v \<in> set (lex_product (PM_candidate_lists sections scenario gmin gmax))"
  by (auto simp: PM_generate_combinations_filter dest: in_set_takeD)

lemma in_exhaustive_APB:
  "v \<in> set (APB_generate_valid_combinations sections scenario gmin gmax mf) \<Longrightarrow>
   is_valid v mf \<and> v \<in> set (lex_product (APB_candidates sections scenario gmin gmax))"
  by (auto simp: APB_generate_valid_combinations_filter dest: in_set_takeD)

lemma pinned_ends:
  assumes "2 \<le> length sections"
    and "v \<in> set (APB_generate_valid_combinations sections scenario gmin gmax mf)"
  shows "length v = length sections \<and> v ! 0 = round2 gmax \<and> v ! (length sections - 1) = round2 gmin"
proof -
  let ?c = "APB_candidates sections scenario gmin gmax"
  have len: "length ?c = length sections" by (simp add: APB_candidates_def)
  from in_exhaustive_APB [OF assms(2)] have "v \<in> set (lex_product ?c)" by simp
  from lex_product_nth [OF this] len
  have l: "length v = length sections" and n: "\<And>i. i < length sections \<Longrightarrow> v ! i \<in> set (?c ! i)"
    by auto
  have pos: "0 < length sections" "length sections - 1 < length sections"
    "length sections - 1 \<noteq> 0" "int (length sections - 1) = int (length sections) - 1"
    using assms(1) by auto
  have c: "?c ! 0 = [round2 gmax]" "?c ! (length sections - 1) = [round2 gmin]"
    unfolding APB_candidates_def using pos by (simp_all del: of_nat_diff)
  have "v ! 0 = round2 gmax"
    using n [OF pos(1)] c(1) by simp
  moreover have "v ! (length sections - 1) = round2 gmin"
    using n [OF pos(2)] c(2) by simp
  ultimately show ?thesis using l by simp
qed

section \<open>Properties of the heuristic search\<close>

lemma best_inv_start: "best_inv revenue target mf [] (None, Infinity)"
  by (simp add: best_inv_def)

lemma best_step_inv:
  assumes "best_inv revenue target mf seen st"
  shows "best_inv revenue target mf (seen @ [c]) (best_step revenue target mf st c)"
proof (cases st)
  case (Pair bc bd)
  show ?thesis
  proof (cases bc)
    case None
    with assms Pair show ?thesis
      by (auto simp: best_inv_def list_all_iff)
  next
    case (Some v)
    with assms Pair show ?thesis
      by (auto simp: best_inv_def list_all_iff)
  qed
qed

lemma foldl_best_inv:
  "best_inv revenue target mf seen st \<Longrightarrow>
   best_inv revenue target mf (seen @ cs) (foldl (best_step revenue target mf) st cs)"
proof (induction cs arbitrary: seen st)
  case Nil
  then show ?case by simp
next
  case (Cons c cs)
  from Cons.IH [OF best_step_inv [OF Cons.prems, of c]] show ?case by simp
qed

lemma PM_build_combo_ok:
  "mf \<noteq> 0 \<or> secs = [] \<Longrightarrow>
   \<exists>c. PM_build_combo secs gmin mf prev combo g = Inr (c, sdrop (length secs) g) \<and>
        length c = length combo + length secs"
proof (induction secs arbitrary: prev combo g)
  case Nil
  then show ?case by simp
next
  case (Cons sec secs)
  then have mf: "mf \<noteq> 0" by simp
  obtain price g' where u: "random_uniform gmin (prev / mf) g = (price, g')"
    by (cases "random_uniform gmin (prev / mf) g")
  then have g': "g' = stl g" by (auto simp: random_uniform_def)
  from Cons.IH [of price "combo @ [round2 price]" g'] mf
  obtain c where "PM_build_combo secs gmin mf price (combo @ [round2 price]) g' = Inr (c, sdrop (length secs) g')"
    "length c = length (combo @ [round2 price]) + length secs" by auto
  then show ?case using mf u g' by simp
qed

lemma PM_build_combo_trial:
  assumes "mf \<noteq> 0 \<or> sections = []"
  shows "PM_build_combo sections gmin mf gmax [] (sdrop (k * length sections) g) =
         Inr (PM_trial sections gmin gmax mf g k, sdrop (Suc k * length sections) g)"
proof -
  from PM_build_combo_ok [OF assms, of gmin gmax "[]" "sdrop (k * length sections) g"]
  obtain c where "PM_build_combo sections gmin mf gmax [] (sdrop (k * length sections) g)
      = Inr (c, sdrop (length sections) (sdrop (k * length sections) g))" by auto
  then show ?thesis by (simp add: PM_trial_def sdrop_add add.commute)
qed

lemma PM_trial_shift:
  "PM_trial sections gmin gmax mf (sdrop (length sections) g) k = PM_trial sections gmin gmax mf g (Suc k)"
  by (simp add: PM_trial_def sdrop_add add.commute)

lemma PM_trials_fold:
  assumes "mf \<noteq> 0 \<or> sections = []"
  shows "PM_trials n target sections gmin gmax mf st g =
     Inr (foldl (best_step (\<lambda>c. compute_revenue_for_combo c sections ''alta'') target mf) st
            (map (PM_trial sections gmin gmax mf g) [0..<n]),
          sdrop (n * length sections) g)"
proof (induction n arbitrary: st g)
  case 0
  show ?case by simp
next
  case (Suc n)
  obtain bc bd where st: "st = (bc, bd)" by (cases st)
  have b: "PM_build_combo sections gmin mf gmax [] g =
      Inr (PM_trial sections gmin gmax mf g 0, sdrop (length sections) g)"
    using PM_build_combo_trial [OF assms, of gmin gmax 0 g] by simp
  have m: "map (PM_trial sections gmin gmax mf g) [0..<Suc n] =
      PM_trial sections gmin gmax mf g 0 # map (PM_trial sections gmin gmax mf (sdrop (length sections) g)) [0..<n]"
    by (simp add: upt_conv_Cons map_Suc_upt [symmetric] PM_trial_shift del: upt_Suc)
  have d: "sdrop (n * length sections) (sdrop (length sections) g) = sdrop (Suc n * length sections) g"
    by (simp add: sdrop_add)
  show ?case
    unfolding m st
    by (simp add: b Suc.IH d Let_def del: upt_Suc)
qed

lemma APB_interior_ok:
  "mf \<noteq> 0 \<or> d = 0 \<Longrightarrow>
   \<exists>c. APB_interior d gmin mf prev combo g = Inr (c, sdrop d g) \<and> length c = length combo + d \<and>
       take (length combo) c = combo"
proof (induction d arbitrary: prev combo g)
  case 0
  then show ?case by simp
next
  case (Suc d)
  then have mf: "mf \<noteq> 0" by simp
  let ?lo = "max gmin (prev / mf * 0.95)"
  obtain price g' where u: "random_uniform ?lo (prev / mf) g = (price, g')"
    by (cases "random_uniform ?lo (prev / mf) g")
  then have g': "g' = stl g" by (auto simp: random_uniform_def)
  from Suc.IH [of price "combo @ [round2 price]" g'] mf
  obtain c where c: "APB_interior d gmin mf price (combo @ [round2 price]) g' = Inr (c, sdrop d g')"
    "length c = length (combo @ [round2 price]) + d"
    "take (length (combo @ [round2 price])) c = combo @ [round2 price]" by auto
  from c(3) have "take (length combo) (take (length (combo @ [round2 price])) c) = combo"
    by simp
  then have "take (length combo) c = combo" by (simp add: min_def)
  then show ?case using mf u g' c(1,2) by (simp add: Let_def)
qed

lemma APB_build_combo_ok:
  assumes "mf \<noteq> 0 \<or> length sections \<le> 2"
  shows "\<exists>c. APB_build_combo sections gmin gmax mf g =
            Inr (c, sdrop (nat (int (length sections) - 2)) g) \<and>
          length c = max 2 (length sections) \<and> c ! 0 = round2 gmax \<and> last c = round2 gmin"
proof -
  let ?d = "nat (int (length sections) - 2)"
  from assms have "mf \<noteq> 0 \<or> ?d = 0" by auto
  from APB_interior_ok [OF this, of gmin gmax "[round2 gmax]" g]
  obtain c where c: "APB_interior ?d gmin mf gmax [round2 gmax] g = Inr (c, sdrop ?d g)"
    "length c = 1 + ?d" "take 1 c = [round2 gmax]" by auto
  from c(2,3) have "c ! 0 = round2 gmax" by (cases c) auto
  moreover have "c \<noteq> []" using c(2) by auto
  ultimately have "(c @ [round2 gmin]) ! 0 = round2 gmax" by (simp add: nth_append)
  moreover have "length (c @ [round2 gmin]) = max 2 (length sections)" using c(2) by auto
  ultimately show ?thesis using c(1) by (simp add: APB_build_combo_def)
qed

lemma APB_build_combo_trial:
  assumes "mf \<noteq> 0 \<or> length sections \<le> 2"
  shows "APB_build_combo sections gmin gmax mf (sdrop (k * nat (int (length sections) - 2)) g) =
         Inr (APB_trial sections gmin gmax mf g k, sdrop (Suc k * nat (int (length sections) - 2)) g)"
proof -
  from APB_build_combo_ok [OF assms, of gmin gmax "sdrop (k * nat (int (length sections) - 2)) g"]
  obtain c where "APB_build_combo sections gmin gmax mf (sdrop (k * nat (int (length sections) - 2)) g)
      = Inr (c, sdrop (nat (int (length sections) - 2)) (sdrop (k * nat (int (length sections) - 2)) g))"
    by auto
  then show ?thesis by (simp add: APB_trial_def sdrop_add add.commute)
qed

lemma APB_trial_shift:
  "APB_trial sections gmin gmax mf (sdrop (nat (int (length sections) - 2)) g) k =
   APB_trial sections gmin gmax mf g (Suc k)"
  by (simp add: APB_trial_def sdrop_add add.commute)

lemma APB_trials_fold:
  assumes "mf \<noteq> 0 \<or> length sections \<le> 2"
  shows "APB_trials n target sections gmin gmax mf scenario st g =
     Inr (foldl (best_step (\<lambda>c. APB_revenue c sections scenario) target mf) st
            (map (APB_trial sections gmin gmax mf g) [0..<n]),
          sdrop (n * nat (int (length sections) - 2)) g)"
proof (induction n arbitrary: st g)
  case 0
  show ?case by simp
next
  case (Suc n)
  let ?d = "nat (int (length sections) - 2)"
  obtain bc bd where st: "st = (bc, bd)" by (cases st)
  have b: "APB_build_combo sections gmin gmax mf g =
      Inr (APB_trial sections gmin gmax mf g 0, sdrop ?d g)"
    using APB_build_combo_trial [OF assms, of gmin gmax 0 g] by simp
  have m: "map (APB_trial sections gmin gmax mf g) [0..<Suc n] =
      APB_trial sections gmin gmax mf g 0 # map (APB_trial sections gmin gmax mf (sdrop ?d g)) [0..<n]"
    by (simp add: upt_conv_Cons map_Suc_upt [symmetric] APB_trial_shift del: upt_Suc)
  have d: "sdrop (n * ?d) (sdrop ?d g) = sdrop (Suc n * ?d) g"
    by (simp add: sdrop_add)
  show ?case
    unfolding m st
    by (simp add: b Suc.IH d Let_def del: upt_Suc)
qed

lemma APB_trial_shape:
  assumes "mf \<noteq> 0 \<or> length sections \<le> 2"
  shows "length (APB_trial sections gmin gmax mf g k) = max 2 (length sections) \<and>
         APB_trial sections gmin gmax mf g k ! 0 = round2 gmax \<and>
         last (APB_trial sections gmin gmax mf g k) = round2 gmin"
  using APB_build_combo_ok [OF assms, of gmin gmax "sdrop (k * nat (int (length sections) - 2)) g"]
  by (auto simp: APB_trial_def)

lemma PM_trial_length:
  assumes "mf \<noteq> 0 \<or> sections = []"
  shows "length (PM_trial sections gmin gmax mf g k) = length sections"
  using PM_build_combo_ok [OF assms, of gmin gmax "[]" "sdrop (k * length sections) g"]
  by (auto simp: PM_trial_def)

lemma PM_heuristic_search_char:
  assumes "mf \<noteq> 0 \<or> sections = []"
  shows "\<exists>best bd. PM_heuristic_search target sections gmin gmax mf g =
            Inr (best, sdrop (10000 * length sections) g) \<and>
          best_inv (\<lambda>c. compute_revenue_for_combo c sections ''alta'') target mf
            (map (PM_trial sections gmin gmax mf g) [0..<10000]) (best, bd)"
proof -
  let ?step = "best_step (\<lambda>c. compute_revenue_for_combo c sections ''alta'') target mf"
  let ?cs = "map (PM_trial sections gmin gmax mf g) [0..<10000]"
  obtain best bd where f: "foldl ?step (None, Infinity) ?cs = (best, bd)"
    by (cases "foldl ?step (None, Infinity) ?cs")
  have "best_inv (\<lambda>c. compute_revenue_for_combo c sections ''alta'') target mf ([] @ ?cs)
          (foldl ?step (None, Infinity) ?cs)"
    by (rule foldl_best_inv [OF best_inv_start])
  then have "best_inv (\<lambda>c. compute_revenue_for_combo c sections ''alta'') target mf ?cs (best, bd)"
    using f by simp
  moreover have "PM_heuristic_search target sections gmin gmax mf g =
            Inr (best, sdrop (10000 * length sections) g)"
    unfolding PM_heuristic_search_def PM_trials_fold [OF assms] f by simp
  ultimately show ?thesis by blast
qed

lemma APB_heuristic_price_search_char:
  assumes "mf \<noteq> 0 \<or> length sections \<le> 2"
  shows "\<exists>best bd. APB_heuristic_price_search target sections gmin gmax mf scenario g =
            Inr (best, sdrop (10000 * nat (int (length sections) - 2)) g) \<and>
          best_inv (\<lambda>c. APB_revenue c sections scenario) target mf
            (map (APB_trial sections gmin gmax mf g) [0..<10000]) (best, bd)"
proof -
  let ?step = "best_step (\<lambda>c. APB_revenue c sections scenario) target mf"
  let ?cs = "map (APB_trial sections gmin gmax mf g) [0..<10000]"
  obtain best bd where f: "foldl ?step (None, Infinity) ?cs = (best, bd)"
    by (cases "foldl ?step (None, Infinity) ?cs")
  have "best_inv (\<lambda>c. APB_revenue c sections scenario) target mf ([] @ ?cs)
          (foldl ?step (None, Infinity) ?cs)"
    by (rule foldl_best_inv [OF best_inv_start])
  then have "best_inv (\<lambda>c. APB_revenue c sections scenario) target mf ?cs (best, bd)"
    using f by simp
  moreover have "APB_heuristic_price_search target sections gmin gmax mf scenario g =
            Inr (best, sdrop (10000 * nat (int (length sections) - 2)) g)"
    unfolding APB_heuristic_price_search_def APB_trials_fold [OF assms] f by simp
  ultimately show ?thesis by blast
qed

lemma PM_trials_error:
  assumes "0 < n" "mf = 0" "sections \<noteq> []"
  shows "PM_trials n target sections gmin gmax mf st g = Inl ZeroDivisionError"
proof -
  obtain sec rest where s: "sections = sec # rest" using assms(3) by (cases sections) auto
  obtain m where n: "n = Suc m" using assms(1) by (cases n) auto
  obtain bc bd where st: "st = (bc, bd)" by (cases st)
  show ?thesis unfolding n s st using assms(2) by simp
qed

lemma PM_heuristic_search_error:
  assumes "mf = 0" "sections \<noteq> []"
  shows "PM_heuristic_search target sections gmin gmax mf g = Inl ZeroDivisionError"
  unfolding PM_heuristic_search_def
  by (simp add: PM_trials_error [OF _ assms])

lemma APB_trials_error:
  assumes "0 < n" "mf = 0" "2 < length sections"
  shows "APB_trials n target sections gmin gmax mf scenario st g = Inl ZeroDivisionError"
proof -
  obtain d where d: "nat (int (length sections) - 2) = Suc d"
    using assms(3) by (cases "nat (int (length sections) - 2)") auto
  have b: "APB_build_combo sections gmin gmax mf g = Inl ZeroDivisionError"
    unfolding APB_build_combo_def d using assms(2) by simp
  obtain m where n: "n = Suc m" using assms(1) by (cases n) auto
  obtain bc bd where st: "st = (bc, bd)" by (cases st)
  show ?thesis unfolding n st by (simp add: b)
qed

lemma APB_heuristic_price_search_error:
  assumes "mf = 0" "2 < length sections"
  shows "APB_heuristic_price_search target sections gmin gmax mf scenario g = Inl ZeroDivisionError"
  unfolding APB_heuristic_price_search_def
  by (simp add: APB_trials_error [OF _ assms])

lemma best_inv_NoneD:
  "best_inv revenue target mf seen (None, bd) \<Longrightarrow> c \<in> set seen \<Longrightarrow> \<not> is_valid c mf"
  by (simp add: best_inv_def list_all_iff)

lemma best_inv_NoneI:
  "best_inv revenue target mf seen (best, bd) \<Longrightarrow> \<forall>c\<in>set seen. \<not> is_valid c mf \<Longrightarrow> best = None"
  by (cases best) (auto simp: best_inv_def list_all_iff)

lemma best_inv_SomeD:
  "best_inv revenue target mf seen (Some v, bd) \<Longrightarrow>
   v \<in> set seen \<and> is_valid v mf \<and>
   (\<forall>c\<in>set seen. is_valid c mf \<longrightarrow> \<bar>revenue v - target\<bar> \<le> \<bar>revenue c - target\<bar>)"
  by (auto simp: best_inv_def list_all_iff)

lemma PM_heuristic_search_valid:
  assumes "PM_heuristic_search target sections gmin gmax mf g = Inr (Some v, g')"
  shows "is_valid v mf \<and> length v = length sections"
proof (cases "mf \<noteq> 0 \<or> sections = []")
  case True
  from PM_heuristic_search_char [OF True, of target gmin gmax g] assms
  obtain bd where "best_inv (\<lambda>c. compute_revenue_for_combo c sections ''alta'') target mf
            (map (PM_trial sections gmin gmax mf g) [0..<10000]) (Some v, bd)" by auto
  from best_inv_SomeD [OF this] show ?thesis
    using PM_trial_length [OF True] by auto
next
  case False
  then show ?thesis using PM_heuristic_search_error [of mf sections] assms by simp
qed

lemma APB_heuristic_price_search_valid:
  assumes "APB_heuristic_price_search target sections gmin gmax mf scenario g = Inr (Some v, g')"
  shows "is_valid v mf \<and> length v = max 2 (length sections) \<and> v ! 0 = round2 gmax \<and> last v = round2 gmin"
proof (cases "mf \<noteq> 0 \<or> length sections \<le> 2")
  case True
  from APB_heuristic_price_search_char [OF True, of target gmin gmax scenario g] assms
  obtain bd where "best_inv (\<lambda>c. APB_revenue c sections scenario) target mf
            (map (APB_trial sections gmin gmax mf g) [0..<10000]) (Some v, bd)" by auto
  from best_inv_SomeD [OF this] show ?thesis
    using APB_trial_shape [OF True] by auto
next
  case False
  then show ?thesis using APB_heuristic_price_search_error [of mf sections] assms by simp
qed

lemma best_inv_constant:
  assumes "best_inv revenue target mf (map f [0..<10000]) (best, bd)"
    and "\<And>k. f k = c" and "is_valid c mf"
  shows "best = Some c"
proof (cases best)
  case None
  have "f 0 \<in> set (map f [0..<10000])" by (simp del: upt_Suc)
  from best_inv_NoneD [OF assms(1) [unfolded None] this] assms(2,3) show ?thesis by simp
next
  case (Some v)
  from best_inv_SomeD [OF assms(1) [unfolded Some]] have "v \<in> set (map f [0..<10000])" by simp
  then show ?thesis using assms(2) Some by auto
qed

lemma sdrop_sconst_eq: "sdrop n (sconst x) = sconst x"
  by (induction n) simp_all

lemma PM_trial_example:
  "PM_trial [\<lparr>name = ''A'', seats = 500\<rparr>] 50 51 1.05 (sconst (1 / 2)) k = [4929 / 100]"
  by (simp add: PM_trial_def sdrop_sconst_eq random_uniform_def round2_def round_half_even_def)

lemma APB_trial_example:
  "APB_trial [\<lparr>name = ''A'', seats = 500\<rparr>, \<lparr>name = ''B'', seats = 500\<rparr>, \<lparr>name = ''C'', seats = 500\<rparr>]
     50 200 1.05 (sconst (1 / 2)) k = [200, 18571 / 100, 50]"
  by (simp add: APB_trial_def APB_build_combo_def sdrop_sconst_eq random_uniform_def round2_def
      round_half_even_def)


section \<open>The claims about the searches\<close>

lemma is_valid_spec: "is_valid v mf \<longleftrightarrow> spec_is_valid v mf"
  by (simp add: is_valid_iff spec_is_valid_def)

text \<open>
  Claim C1. Every vector returned by either exhaustive search, and every vector returned
  by either heuristic search, satisfies \<open>vector[i] >= margin_factor * vector[i+1]\<close> at
  every adjacent pair of indices; a vector of length at most 1 is valid; and the inlined
  test is the constraint of the specification.
\<close>

theorem accepted_vectors_respect_margin:
  "(\<forall>v \<in> set (PM_generate_combinations sections scenario global_min global_max margin_factor).
      spec_is_valid v margin_factor) \<and>
   (\<forall>v \<in> set (APB_generate_valid_combinations sections scenario global_min global_max margin_factor).
      spec_is_valid v margin_factor) \<and>
   (\<forall>v g'. PM_heuristic_search target sections global_min global_max margin_factor g = Inr (Some v, g')
      \<longrightarrow> spec_is_valid v margin_factor) \<and>
   (\<forall>v g'. APB_heuristic_price_search target sections global_min global_max margin_factor scenario g
        = Inr (Some v, g')
      \<longrightarrow> spec_is_valid v margin_factor) \<and>
   (\<forall>v. length v \<le> 1 \<longrightarrow> is_valid v margin_factor \<and> spec_is_valid v margin_factor) \<and>
   (\<forall>v. is_valid v margin_factor \<longleftrightarrow> spec_is_valid v margin_factor)"
proof (intro conjI ballI allI impI)
  fix v assume "v \<in> set (PM_generate_combinations sections scenario global_min global_max margin_factor)"
  then show "spec_is_valid v margin_factor"
    using in_exhaustive_PM is_valid_spec by blast
next
  fix v assume "v \<in> set (APB_generate_valid_combinations sections scenario global_min global_max margin_factor)"
  then show "spec_is_valid v margin_factor"
    using in_exhaustive_APB is_valid_spec by blast
next
  fix v g' assume "PM_heuristic_search target sections global_min global_max margin_factor g = Inr (Some v, g')"
  then show "spec_is_valid v margin_factor"
    using PM_heuristic_search_valid is_valid_spec by blast
next
  fix v g'
  assume "APB_heuristic_price_search target sections global_min global_max margin_factor scenario g
        = Inr (Some v, g')"
  then show "spec_is_valid v margin_factor"
    using APB_heuristic_price_search_valid is_valid_spec by blast
next
  fix v :: "real list" assume "length v \<le> 1"
  then show "is_valid v margin_factor" by (simp add: is_valid_def)
next
  fix v :: "real list" assume "length v \<le> 1"
  then show "spec_is_valid v margin_factor" by (simp add: spec_is_valid_def)
qed (simp_all add: is_valid_spec)

theorem accepted_vectors_respect_margin_witness:
  "[200, 725 / 4, 325 / 2] \<in> set (PM_generate_combinations
      [\<lparr>name = ''A'', seats = 500\<rparr>, \<lparr>name = ''B'', seats = 500\<rparr>, \<lparr>name = ''C'', seats = 500\<rparr>]
      ''alta'' 50 200 1.05) \<and>
   spec_is_valid [200, 725 / 4, 325 / 2] 1.05 \<and>
   (200 :: real) \<ge> 1.05 * (725 / 4) \<and> (725 / 4 :: real) \<ge> 1.05 * (325 / 2)"
proof -
  let ?secs = "[\<lparr>name = ''A'', seats = 500\<rparr>, \<lparr>name = ''B'', seats = 500\<rparr>, \<lparr>name = ''C'', seats = 500\<rparr>]"
  have m: "[200, 725 / 4, 325 / 2] \<in> set (PM_generate_combinations ?secs ''alta'' 50 200 1.05)"
    using PM_exhaustive_example by simp
  from accepted_vectors_respect_margin [of ?secs "''alta''" 50 200 "1.05"] m
  have "spec_is_valid [200, 725 / 4, 325 / 2] 1.05" by blast
  with m show ?thesis by simp
qed

text \<open>
  Claim C4. Both exhaustive searches return exactly the tuples that pass the margin test
  among the first 100000 tuples of the product of the candidate lists in lexicographic
  order (first section slowest, last fastest); the loop runs over at most 100000 tuples;
  and the result can be empty.
\<close>

theorem exhaustive_search_enumeration:
  "PM_generate_combinations sections scenario global_min global_max margin_factor =
     filter (\<lambda>c. is_valid c margin_factor)
       (take 100000 (lex_product (PM_candidate_lists sections scenario global_min global_max))) \<and>
   APB_generate_valid_combinations sections scenario global_min global_max margin_factor =
     filter (\<lambda>c. is_valid c margin_factor)
       (take 100000 (lex_product (APB_candidates sections scenario global_min global_max))) \<and>
   islice (itertools_product (PM_candidate_lists sections scenario global_min global_max)) 100000 =
     take 100000 (lex_product (PM_candidate_lists sections scenario global_min global_max)) \<and>
   islice (itertools_product (APB_candidates sections scenario global_min global_max)) 100000 =
     take 100000 (lex_product (APB_candidates sections scenario global_min global_max)) \<and>
   length (islice (itertools_product (PM_candidate_lists sections scenario global_min global_max)) 100000)
     \<le> 100000 \<and>
   length (islice (itertools_product (APB_candidates sections scenario global_min global_max)) 100000)
     \<le> 100000 \<and>
   PM_candidate_lists sections scenario global_min global_max =
     replicate (length sections) (PM_generate_candidate_prices global_min global_max scenario) \<and>
   (\<exists>secs sc lo hi mf. PM_generate_combinations secs sc lo hi mf = []) \<and>
   (\<exists>secs sc lo hi mf. APB_generate_valid_combinations secs sc lo hi mf = [])"
proof (intro conjI)
  show "\<exists>secs sc lo hi mf. PM_generate_combinations secs sc lo hi mf = []"
    using degenerate_empty by blast
  have "APB_generate_valid_combinations [\<lparr>name = ''A'', seats = 500\<rparr>, \<lparr>name = ''B'', seats = 500\<rparr>]
      ''alta'' 50 50 1.05 = []"
    by (simp add: APB_generate_valid_combinations_filter APB_candidates_def upt_rec
        round2_def round_half_even_def is_valid_simps)
  then show "\<exists>secs sc lo hi mf. APB_generate_valid_combinations secs sc lo hi mf = []"
    by blast
qed (simp_all add: PM_generate_combinations_filter APB_generate_valid_combinations_filter
       PM_candidate_lists_replicate islice_def itertools_product_lex)

theorem exhaustive_search_enumeration_witness:
  "PM_generate_combinations
      [\<lparr>name = ''A'', seats = 500\<rparr>, \<lparr>name = ''B'', seats = 500\<rparr>, \<lparr>name = ''C'', seats = 500\<rparr>]
      ''alta'' 50 200 1.05 = [[200, 725 / 4, 325 / 2]] \<and>
   APB_generate_valid_combinations
      [\<lparr>name = ''A'', seats = 500\<rparr>, \<lparr>name = ''B'', seats = 500\<rparr>, \<lparr>name = ''C'', seats = 500\<rparr>]
      ''alta'' 50 200 1.05 = [[200, 325 / 2, 50], [200, 725 / 4, 50]]"
  using exhaustive_search_enumeration [of
      "[\<lparr>name = ''A'', seats = 500\<rparr>, \<lparr>name = ''B'', seats = 500\<rparr>, \<lparr>name = ''C'', seats = 500\<rparr>]"
      "''alta''" 50 200 "1.05"]
  by (simp add: APB_candidates_def upt_3 PM_candidates_eq_spec APB_candidates_eq_spec
      spec_window_def spec_grid_def round2_def round_half_even_def is_valid_simps)

text \<open>
  Claim C6. For at least two sections the pinned search uses the candidate list
  \<open>[round(global_max, 2)]\<close> for section 0, \<open>[round(global_min, 2)]\<close> for the last
  section and the scenario window for the sections between; every vector it returns
  starts with \<open>round(global_max, 2)\<close> and ends with \<open>round(global_min, 2)\<close>.
\<close>

theorem pinned_end_points:
  "2 \<le> length sections \<Longrightarrow>
   APB_candidates sections scenario global_min global_max =
     [round2 global_max] #
     replicate (length sections - 2) (APB_generate_candidate_prices global_min global_max scenario) @
     [[round2 global_min]] \<and>
   (\<forall>v \<in> set (APB_generate_valid_combinations sections scenario global_min global_max margin_factor).
      length v = length sections \<and> v ! 0 = round2 global_max \<and>
      v ! (length sections - 1) = round2 global_min)"
  using APB_candidates_pinned pinned_ends by blast

theorem pinned_end_points_witness:
  "APB_candidates
      [\<lparr>name = ''A'', seats = 500\<rparr>, \<lparr>name = ''B'', seats = 500\<rparr>, \<lparr>name = ''C'', seats = 500\<rparr>]
      ''alta'' 50 200 = [[200], [325 / 2, 725 / 4, 200], [50]] \<and>
   set (APB_generate_valid_combinations
      [\<lparr>name = ''A'', seats = 500\<rparr>, \<lparr>name = ''B'', seats = 500\<rparr>, \<lparr>name = ''C'', seats = 500\<rparr>]
      ''alta'' 50 200 1.05) \<noteq> {}"
proof -
  let ?secs = "[\<lparr>name = ''A'', seats = 500\<rparr>, \<lparr>name = ''B'', seats = 500\<rparr>, \<lparr>name = ''C'', seats = 500\<rparr>]"
  have "2 \<le> length ?secs" by simp
  from pinned_end_points [OF this, of "''alta''" 50 200 "1.05"]
  have "APB_candidates ?secs ''alta'' 50 200 =
     [round2 200] # replicate (length ?secs - 2) (APB_generate_candidate_prices 50 200 ''alta'') @ [[round2 50]]"
    by blast
  then have "APB_candidates ?secs ''alta'' 50 200 = [[200], [325 / 2, 725 / 4, 200], [50]]"
    by (simp add: APB_candidates_eq_spec spec_window_def spec_grid_def round2_def round_half_even_def)
  then show ?thesis using APB_exhaustive_example by simp
qed

lemma best_inv_trials:
  assumes "best_inv revenue target mf (map f [0..<n]) (best, bd)"
  shows "(best = None \<longleftrightarrow> (\<forall>k<n. \<not> is_valid (f k) mf)) \<and>
         (\<forall>v. best = Some v \<longrightarrow>
            (\<exists>k<n. v = f k) \<and> is_valid v mf \<and>
            (\<forall>k<n. is_valid (f k) mf \<longrightarrow> \<bar>revenue v - target\<bar> \<le> \<bar>revenue (f k) - target\<bar>))"
proof -
  have s: "set (map f [0..<n]) = f ` {0..<n}" by simp
  show ?thesis
  proof (cases best)
    case None
    have "\<forall>k<n. \<not> is_valid (f k) mf"
      using best_inv_NoneD [OF assms [unfolded None]] s by auto
    with None show ?thesis by simp
  next
    case (Some v)
    from best_inv_SomeD [OF assms [unfolded Some]]
    have v: "v \<in> f ` {0..<n}" "is_valid v mf"
      and m: "\<forall>c\<in>f ` {0..<n}. is_valid c mf \<longrightarrow> \<bar>revenue v - target\<bar> \<le> \<bar>revenue c - target\<bar>"
      unfolding s by auto
    from v(1) obtain k where k: "k < n" "v = f k" by auto
    have "\<not> (\<forall>k<n. \<not> is_valid (f k) mf)" using k v(2) by auto
    moreover have "\<forall>k<n. is_valid (f k) mf \<longrightarrow> \<bar>revenue v - target\<bar> \<le> \<bar>revenue (f k) - target\<bar>"
      using m by auto
    ultimately show ?thesis using Some k v(2) by auto
  qed
qed

text \<open>
  Claim C9. With the random source as an input stream, and unless the division by a zero
  margin factor raises: the heuristic search runs the 10000 trials \<open>k = 0, ..., 9999\<close>, each
  starting where the one before left the random source; it returns none exactly when no
  trial's chain passes the margin test; otherwise it returns the chain of a trial that
  passes, and no passing trial's chain has a smaller distance between its revenue and the
  target. The basic variant takes the revenue at the scenario "alta", the improved one at
  the scenario it is given. With a zero margin factor and a price to draw, both raise
  \<open>ZeroDivisionError\<close>.
\<close>

theorem heuristic_search_best_of_trials:
  "(margin_factor \<noteq> 0 \<or> sections = [] \<longrightarrow>
      (\<exists>best. PM_heuristic_search target sections global_min global_max margin_factor g =
                Inr (best, sdrop (10000 * length sections) g) \<and>
         (best = None \<longleftrightarrow>
            (\<forall>k<10000. \<not> is_valid (PM_trial sections global_min global_max margin_factor g k) margin_factor)) \<and>
         (\<forall>v. best = Some v \<longrightarrow>
            (\<exists>k<10000. v = PM_trial sections global_min global_max margin_factor g k) \<and>
            is_valid v margin_factor \<and>
            (\<forall>k<10000. is_valid (PM_trial sections global_min global_max margin_factor g k) margin_factor \<longrightarrow>
               \<bar>compute_revenue_for_combo v sections ''alta'' - target\<bar> \<le>
               \<bar>compute_revenue_for_combo (PM_trial sections global_min global_max margin_factor g k)
                  sections ''alta'' - target\<bar>))) \<and>
      (\<forall>k. PM_build_combo sections global_min margin_factor global_max [] (sdrop (k * length sections) g) =
           Inr (PM_trial sections global_min global_max margin_factor g k,
                sdrop (Suc k * length sections) g))) \<and>
   (margin_factor \<noteq> 0 \<or> length sections \<le> 2 \<longrightarrow>
      (\<exists>best. APB_heuristic_price_search target sections global_min global_max margin_factor scenario g =
                Inr (best, sdrop (10000 * nat (int (length sections) - 2)) g) \<and>
         (best = None \<longleftrightarrow>
            (\<forall>k<10000. \<not> is_valid (APB_trial sections global_min global_max margin_factor g k) margin_factor)) \<and>
         (\<forall>v. best = Some v \<longrightarrow>
            (\<exists>k<10000. v = APB_trial sections global_min global_max margin_factor g k) \<and>
            is_valid v margin_factor \<and>
            (\<forall>k<10000. is_valid (APB_trial sections global_min global_max margin_factor g k) margin_factor \<longrightarrow>
               \<bar>APB_revenue v sections scenario - target\<bar> \<le>
               \<bar>APB_revenue (APB_trial sections global_min global_max margin_factor g k)
                  sections scenario - target\<bar>))) \<and>
      (\<forall>k. APB_build_combo sections global_min global_max margin_factor
             (sdrop (k * nat (int (length sections) - 2)) g) =
           Inr (APB_trial sections global_min global_max margin_factor g k,
                sdrop (Suc k * nat (int (length sections) - 2)) g))) \<and>
   (margin_factor = 0 \<and> sections \<noteq> [] \<longrightarrow>
      PM_heuristic_search target sections global_min global_max margin_factor g = Inl ZeroDivisionError) \<and>
   (margin_factor = 0 \<and> 2 < length sections \<longrightarrow>
      APB_heuristic_price_search target sections global_min global_max margin_factor scenario g =
        Inl ZeroDivisionError)"
proof (intro conjI impI)
  assume a: "margin_factor \<noteq> 0 \<or> sections = []"
  from PM_heuristic_search_char [OF a, of target global_min global_max g]
  obtain best bd where r: "PM_heuristic_search target sections global_min global_max margin_factor g =
            Inr (best, sdrop (10000 * length sections) g)"
    and i: "best_inv (\<lambda>c. compute_revenue_for_combo c sections ''alta'') target margin_factor
            (map (PM_trial sections global_min global_max margin_factor g) [0..<10000]) (best, bd)"
    by blast
  from r best_inv_trials [OF i]
  show "\<exists>best. PM_heuristic_search target sections global_min global_max margin_factor g =
                Inr (best, sdrop (10000 * length sections) g) \<and>
         (best = None \<longleftrightarrow>
            (\<forall>k<10000. \<not> is_valid (PM_trial sections global_min global_max margin_factor g k) margin_factor)) \<and>
         (\<forall>v. best = Some v \<longrightarrow>
            (\<exists>k<10000. v = PM_trial sections global_min global_max margin_factor g k) \<and>
            is_valid v margin_factor \<and>
            (\<forall>k<10000. is_valid (PM_trial sections global_min global_max margin_factor g k) margin_factor \<longrightarrow>
               \<bar>compute_revenue_for_combo v sections ''alta'' - target\<bar> \<le>
               \<bar>compute_revenue_for_combo (PM_trial sections global_min global_max margin_factor g k)
                  sections ''alta'' - target\<bar>))"
    by blast
  show "\<forall>k. PM_build_combo sections global_min margin_factor global_max [] (sdrop (k * length sections) g) =
           Inr (PM_trial sections global_min global_max margin_factor g k,
                sdrop (Suc k * length sections) g)"
    using PM_build_combo_trial [OF a] by blast
next
  assume a: "margin_factor \<noteq> 0 \<or> length sections \<le> 2"
  from APB_heuristic_price_search_char [OF a, of target global_min global_max scenario g]
  obtain best bd where r: "APB_heuristic_price_search target sections global_min global_max margin_factor scenario g =
            Inr (best, sdrop (10000 * nat (int (length sections) - 2)) g)"
    and i: "best_inv (\<lambda>c. APB_revenue c sections scenario) target margin_factor
            (map (APB_trial sections global_min global_max margin_factor g) [0..<10000]) (best, bd)"
    by blast
  from r best_inv_trials [OF i]
  show "\<exists>best. APB_heuristic_price_search target sections global_min global_max margin_factor scenario g =
                Inr (best, sdrop (10000 * nat (int (length sections) - 2)) g) \<and>
         (best = None \<longleftrightarrow>
            (\<forall>k<10000. \<not> is_valid (APB_trial sections global_min global_max margin_factor g k) margin_factor)) \<and>
         (\<forall>v. best = Some v \<longrightarrow>
            (\<exists>k<10000. v = APB_trial sections global_min global_max margin_factor g k) \<and>
            is_valid v margin_factor \<and>
            (\<forall>k<10000. is_valid (APB_trial sections global_min global_max margin_factor g k) margin_factor \<longrightarrow>
               \<bar>APB_revenue v sections scenario - target\<bar> \<le>
               \<bar>APB_revenue (APB_trial sections global_min global_max margin_factor g k)
                  sections scenario - target\<bar>))"
    by blast
  show "\<forall>k. APB_build_combo sections global_min global_max margin_factor
             (sdrop (k * nat (int (length sections) - 2)) g) =
           Inr (APB_trial sections global_min global_max margin_factor g k,
                sdrop (Suc k * nat (int (length sections) - 2)) g)"
    using APB_build_combo_trial [OF a] by blast
next
  assume "margin_factor = 0 \<and> sections \<noteq> []"
  then show "PM_heuristic_search target sections global_min global_max margin_factor g = Inl ZeroDivisionError"
    using PM_heuristic_search_error by blast
next
  assume "margin_factor = 0 \<and> 2 < length sections"
  then show "APB_heuristic_price_search target sections global_min global_max margin_factor scenario g =
        Inl ZeroDivisionError"
    using APB_heuristic_price_search_error by blast
qed

theorem heuristic_search_best_of_trials_witness:
  "PM_heuristic_search 100000 [\<lparr>name = ''A'', seats = 500\<rparr>] 50 51 1.05 (sconst (1 / 2)) =
     Inr (Some [4929 / 100], sconst (1 / 2)) \<and>
   APB_heuristic_price_search 100000
     [\<lparr>name = ''A'', seats = 500\<rparr>, \<lparr>name = ''B'', seats = 500\<rparr>, \<lparr>name = ''C'', seats = 500\<rparr>]
     50 200 1.05 ''alta'' (sconst (1 / 2)) =
     Inr (Some [200, 18571 / 100, 50], sconst (1 / 2))"
proof -
  let ?s1 = "[\<lparr>name = ''A'', seats = 500\<rparr>]"
  let ?s3 = "[\<lparr>name = ''A'', seats = 500\<rparr>, \<lparr>name = ''B'', seats = 500\<rparr>, \<lparr>name = ''C'', seats = 500\<rparr>]"
  let ?g = "sconst (1 / 2 :: real)"
  have h1: "(1.05 :: real) \<noteq> 0 \<or> ?s1 = []" by simp
  note A = heuristic_search_best_of_trials [of "1.05" ?s1 100000 50 51 ?g "''alta''",
      THEN conjunct1, THEN mp, OF h1, THEN conjunct1]
  then obtain best where r: "PM_heuristic_search 100000 ?s1 50 51 1.05 ?g = Inr (best, sdrop (10000 * length ?s1) ?g)"
    and n: "best = None \<longleftrightarrow> (\<forall>k<10000. \<not> is_valid (PM_trial ?s1 50 51 1.05 ?g k) 1.05)"
    and s: "\<forall>v. best = Some v \<longrightarrow>
            (\<exists>k<10000. v = PM_trial ?s1 50 51 1.05 ?g k) \<and>
            is_valid v 1.05 \<and>
            (\<forall>k<10000. is_valid (PM_trial ?s1 50 51 1.05 ?g k) 1.05 \<longrightarrow>
               \<bar>compute_revenue_for_combo v ?s1 ''alta'' - 100000\<bar> \<le>
               \<bar>compute_revenue_for_combo (PM_trial ?s1 50 51 1.05 ?g k) ?s1 ''alta'' - 100000\<bar>)"
    by (elim exE conjE)
  have v0: "is_valid [4929 / 100] 1.05" by (simp add: is_valid_simps)
  have "best \<noteq> None"
  proof
    assume "best = None"
    with n have "\<not> is_valid (PM_trial ?s1 50 51 1.05 ?g 0) 1.05" by simp
    with v0 show False unfolding PM_trial_example by simp
  qed
  then obtain v where v: "best = Some v" by (cases best) auto
  with s obtain k where "v = PM_trial ?s1 50 51 1.05 ?g k" by blast
  then have "v = [4929 / 100]" unfolding PM_trial_example .
  with r v have pm: "PM_heuristic_search 100000 ?s1 50 51 1.05 ?g = Inr (Some [4929 / 100], ?g)"
    by (simp add: sdrop_sconst_eq)
  have h3: "(1.05 :: real) \<noteq> 0 \<or> length ?s3 \<le> 2" by simp
  note B = heuristic_search_best_of_trials [of "1.05" ?s3 100000 50 200 ?g "''alta''",
      THEN conjunct2, THEN conjunct1, THEN mp, OF h3, THEN conjunct1]
  then obtain best' where r': "APB_heuristic_price_search 100000 ?s3 50 200 1.05 ''alta'' ?g =
       Inr (best', sdrop (10000 * nat (int (length ?s3) - 2)) ?g)"
    and n': "best' = None \<longleftrightarrow> (\<forall>k<10000. \<not> is_valid (APB_trial ?s3 50 200 1.05 ?g k) 1.05)"
    and s': "\<forall>v. best' = Some v \<longrightarrow>
            (\<exists>k<10000. v = APB_trial ?s3 50 200 1.05 ?g k) \<and>
            is_valid v 1.05 \<and>
            (\<forall>k<10000. is_valid (APB_trial ?s3 50 200 1.05 ?g k) 1.05 \<longrightarrow>
               \<bar>APB_revenue v ?s3 ''alta'' - 100000\<bar> \<le>
               \<bar>APB_revenue (APB_trial ?s3 50 200 1.05 ?g k) ?s3 ''alta'' - 100000\<bar>)"
    by (elim exE conjE)
  have v0': "is_valid [200, 18571 / 100, 50] 1.05" by (simp add: is_valid_simps)
  have "best' \<noteq> None"
  proof
    assume "best' = None"
    with n' have "\<not> is_valid (APB_trial ?s3 50 200 1.05 ?g 0) 1.05" by simp
    with v0' show False unfolding APB_trial_example by simp
  qed
  then obtain v' where v': "best' = Some v'" by (cases best') auto
  with s' obtain k' where "v' = APB_trial ?s3 50 200 1.05 ?g k'" by blast
  then have "v' = [200, 18571 / 100, 50]" unfolding APB_trial_example .
  with r' v' have "APB_heuristic_price_search 100000 ?s3 50 200 1.05 ''alta'' ?g =
       Inr (Some [200, 18571 / 100, 50], ?g)"
    by (simp add: sdrop_sconst_eq)
  with pm show ?thesis by simp
qed

lemma APB_build_combo_error:
  assumes "mf = 0" "2 < length sections"
  shows "APB_build_combo sections gmin gmax mf g = Inl ZeroDivisionError"
proof -
  obtain d where d: "nat (int (length sections) - 2) = Suc d"
    using assms(2) by (cases "nat (int (length sections) - 2)") auto
  show ?thesis unfolding APB_build_combo_def d using assms(1) by simp
qed

lemma APB_build_combo_length:
  assumes "APB_build_combo sections gmin gmax mf g = Inr (c, g')"
  shows "length c = max 2 (length sections)"
proof (cases "mf \<noteq> 0 \<or> length sections \<le> 2")
  case True
  from APB_build_combo_ok [OF True, of gmin gmax g] assms show ?thesis by auto
next
  case False
  then show ?thesis using APB_build_combo_error [of mf sections] assms by simp
qed

lemma APB_trial_short:
  assumes "length sections \<le> 2"
  shows "APB_trial sections gmin gmax mf g k = [round2 gmax, round2 gmin]"
proof -
  have "nat (int (length sections) - 2) = 0" using assms by simp
  then show ?thesis by (simp add: APB_trial_def APB_build_combo_def)
qed

lemma APB_search_short:
  assumes "length sections \<le> 2"
  shows "APB_heuristic_price_search target sections gmin gmax mf scenario g =
     Inr (if is_valid [round2 gmax, round2 gmin] mf then Some [round2 gmax, round2 gmin] else None, g)"
proof -
  have d: "nat (int (length sections) - 2) = 0" using assms by simp
  have a: "mf \<noteq> 0 \<or> length sections \<le> 2" using assms by simp
  from APB_heuristic_price_search_char [OF a, of target gmin gmax scenario g]
  obtain best bd where r: "APB_heuristic_price_search target sections gmin gmax mf scenario g =
            Inr (best, sdrop (10000 * nat (int (length sections) - 2)) g)"
    and i: "best_inv (\<lambda>c. APB_revenue c sections scenario) target mf
            (map (APB_trial sections gmin gmax mf g) [0..<10000]) (best, bd)"
    by blast
  have "best = (if is_valid [round2 gmax, round2 gmin] mf then Some [round2 gmax, round2 gmin] else None)"
  proof (cases "is_valid [round2 gmax, round2 gmin] mf")
    case True
    from best_inv_constant [OF i APB_trial_short [OF assms] True] True show ?thesis by simp
  next
    case False
    have "\<forall>c\<in>set (map (APB_trial sections gmin gmax mf g) [0..<10000]). \<not> is_valid c mf"
      using False APB_trial_short [OF assms] by (auto simp del: upt_Suc)
    from best_inv_NoneI [OF i this] False show ?thesis by simp
  qed
  with r d show ?thesis by simp
qed

text \<open>
  Claim C10. Every chain the improved heuristic builds has length
  \<open>max(2, len(sections))\<close>: a returned vector has the length of the sections list when
  that is at least 2, and is \<open>[round(global_max, 2), round(global_min, 2)]\<close>, longer than
  the sections list, when the list has at most one element.
\<close>

theorem improved_heuristic_chain_length:
  "(\<forall>c g'. APB_build_combo sections global_min global_max margin_factor g = Inr (c, g') \<longrightarrow>
      length c = max 2 (length sections)) \<and>
   (\<forall>v g'. APB_heuristic_price_search target sections global_min global_max margin_factor scenario g
        = Inr (Some v, g') \<longrightarrow>
      length v = max 2 (length sections) \<and>
      (2 \<le> length sections \<longrightarrow> length v = length sections) \<and>
      (length sections \<le> 1 \<longrightarrow>
         v = [round2 global_max, round2 global_min] \<and> length sections < length v)) \<and>
   (length sections \<le> 1 \<longrightarrow>
      APB_heuristic_price_search target sections global_min global_max margin_factor scenario g =
        Inr (if is_valid [round2 global_max, round2 global_min] margin_factor
             then Some [round2 global_max, round2 global_min] else None, g))"
proof (intro conjI allI impI)
  fix c g' assume "APB_build_combo sections global_min global_max margin_factor g = Inr (c, g')"
  then show "length c = max 2 (length sections)" by (rule APB_build_combo_length)
next
  fix v g'
  assume r: "APB_heuristic_price_search target sections global_min global_max margin_factor scenario g
        = Inr (Some v, g')"
  from APB_heuristic_price_search_valid [OF r]
  show l: "length v = max 2 (length sections)" by simp
  { assume "2 \<le> length sections"
    with l show "length v = length sections" by simp }
  { assume s: "length sections \<le> 1"
    then have "length sections \<le> 2" by simp
    from APB_search_short [OF this, of target global_min global_max margin_factor scenario g] r
    show "v = [round2 global_max, round2 global_min]" by (simp split: if_splits)
    from s l show "length sections < length v" by simp }
next
  assume "length sections \<le> 1"
  then have "length sections \<le> 2" by simp
  then show "APB_heuristic_price_search target sections global_min global_max margin_factor scenario g =
        Inr (if is_valid [round2 global_max, round2 global_min] margin_factor
             then Some [round2 global_max, round2 global_min] else None, g)"
    by (rule APB_search_short)
qed

theorem improved_heuristic_chain_length_witness:
  "APB_heuristic_price_search 100000 [\<lparr>name = ''A'', seats = 500\<rparr>] 50 200 1.05 ''alta'' (sconst (1 / 2))
     = Inr (Some [200, 50], sconst (1 / 2)) \<and>
   length [\<lparr>name = ''A'', seats = 500\<rparr>] < length [200 :: real, 50]"
proof -
  have "length [\<lparr>name = ''A'', seats = 500\<rparr>] \<le> 1" by simp
  note improved_heuristic_chain_length [of "[\<lparr>name = ''A'', seats = 500\<rparr>]" 50 200 "1.05"
      "sconst (1 / 2)" 100000 "''alta''", THEN conjunct2, THEN conjunct2, THEN mp, OF this]
  then show ?thesis
    by (simp add: is_valid_simps round2_def round_half_even_def)
qed

text \<open>
  A zero margin factor with a price to draw: both searches raise in their first trial.
\<close>

theorem heuristic_search_zero_margin_counterexample:
  "PM_heuristic_search 100000 [\<lparr>name = ''A'', seats = 500\<rparr>] 50 200 0 (sconst (1 / 2)) =
     Inl ZeroDivisionError \<and>
   APB_heuristic_price_search 100000
     [\<lparr>name = ''A'', seats = 500\<rparr>, \<lparr>name = ''B'', seats = 500\<rparr>, \<lparr>name = ''C'', seats = 500\<rparr>]
     50 200 0 ''alta'' (sconst (1 / 2)) = Inl ZeroDivisionError"
  by (simp add: PM_heuristic_search_error APB_heuristic_price_search_error)

section \<open>Properties of the revenue model and the ranking\<close>

lemma foldl_add_sum_list: "foldl (+) a xs = a + sum_list xs" for a :: real
  by (induction xs arbitrary: a) simp_all

lemma py_sum_sum_list: "py_sum xs = sum_list xs"
  by (simp add: py_sum_def foldl_add_sum_list)

lemma dict_get_sell_rates: "dict_get sell_rates scenario 0.95 = spec_rate scenario"
  by (simp add: dict_get_def sell_rates_def spec_rate_def)

lemma sum_list_zip_nth:
  "sum_list (map (\<lambda>(p, s). f p s) (zip xs ys)) = (\<Sum>i<min (length xs) (length ys). f (xs ! i) (ys ! i))"
proof -
  have "sum_list (map (\<lambda>(p, s). f p s) (zip xs ys)) =
        (\<Sum>i = 0..<length (zip xs ys). map (\<lambda>(p, s). f p s) (zip xs ys) ! i)"
    by (simp add: sum_list_sum_nth)
  also have "\<dots> = (\<Sum>i = 0..<min (length xs) (length ys). f (xs ! i) (ys ! i))"
    by (rule sum.cong) auto
  finally show ?thesis by (simp add: atLeast0LessThan)
qed

lemma compute_revenue_formula:
  "compute_revenue_for_combo combo sections scenario =
     (\<Sum>i<min (length combo) (length sections).
        real_of_int (seats (sections ! i)) * spec_rate scenario * combo ! i)"
  unfolding compute_revenue_for_combo_def Let_def py_sum_sum_list dict_get_sell_rates
  by (rule sum_list_zip_nth [of "\<lambda>p s. real_of_int (seats s) * spec_rate scenario * p"])

lemma APB_revenue_formula:
  "APB_revenue combo sections scenario =
     (\<Sum>i<min (length combo) (length sections).
        real_of_int (seats (sections ! i)) * spec_rate scenario * combo ! i)"
  unfolding APB_revenue_def py_sum_sum_list dict_get_sell_rates
  by (rule sum_list_zip_nth [of "\<lambda>p s. real_of_int (seats s) * spec_rate scenario * p"])

lemma ranking_key_formula:
  "ranking_key sections target v =
     \<bar>(\<Sum>i<min (length v) (length sections). real_of_int (seats (sections ! i)) * 0.95 * v ! i) - target\<bar>"
proof -
  have "sum_list (map (\<lambda>(p, s). p * real_of_int (seats s) * 0.95) (zip v sections)) =
      (\<Sum>i<min (length v) (length sections). v ! i * real_of_int (seats (sections ! i)) * 0.95)"
    by (rule sum_list_zip_nth [of "\<lambda>p s. p * real_of_int (seats s) * 0.95"])
  also have "\<dots> = (\<Sum>i<min (length v) (length sections). real_of_int (seats (sections ! i)) * 0.95 * v ! i)"
    by (rule sum.cong) (simp_all add: mult_ac)
  finally show ?thesis by (simp add: ranking_key_def py_sum_sum_list)
qed

text \<open>
  Claim C7. The revenue of a price vector is the sum over the sections of
  \<open>seats * rate * price\<close>, where the rate is 0.98 for "alta", 0.90 for "moderada", 0.85
  for "baja" and 0.95 for any other scenario; the function is total. The revenue that the
  improved heuristic computes inline is the same.
\<close>

theorem revenue_model:
  "compute_revenue_for_combo combo sections scenario =
     (\<Sum>i<min (length combo) (length sections).
        real_of_int (seats (sections ! i)) * spec_rate scenario * combo ! i) \<and>
   APB_revenue combo sections scenario =
     (\<Sum>i<min (length combo) (length sections).
        real_of_int (seats (sections ! i)) * spec_rate scenario * combo ! i) \<and>
   spec_rate ''alta'' = 0.98 \<and> spec_rate ''moderada'' = 0.90 \<and> spec_rate ''baja'' = 0.85 \<and>
   (scenario \<noteq> ''alta'' \<and> scenario \<noteq> ''moderada'' \<and> scenario \<noteq> ''baja'' \<longrightarrow>
      spec_rate scenario = 0.95)"
  using compute_revenue_formula [of combo sections scenario] APB_revenue_formula [of combo sections scenario]
  by (simp add: spec_rate_def)

theorem revenue_model_witness:
  "compute_revenue_for_combo [200, 100, 50]
     [\<lparr>name = ''A'', seats = 500\<rparr>, \<lparr>name = ''B'', seats = 500\<rparr>, \<lparr>name = ''C'', seats = 500\<rparr>]
     ''alta'' = 171500 \<and>
   APB_revenue [200, 100, 50]
     [\<lparr>name = ''A'', seats = 500\<rparr>, \<lparr>name = ''B'', seats = 500\<rparr>, \<lparr>name = ''C'', seats = 500\<rparr>]
     ''otra'' = 166250"
  using revenue_model [of "[200, 100, 50]"
     "[\<lparr>name = ''A'', seats = 500\<rparr>, \<lparr>name = ''B'', seats = 500\<rparr>, \<lparr>name = ''C'', seats = 500\<rparr>]" "''alta''"]
    revenue_model [of "[200, 100, 50]"
     "[\<lparr>name = ''A'', seats = 500\<rparr>, \<lparr>name = ''B'', seats = 500\<rparr>, \<lparr>name = ''C'', seats = 500\<rparr>]" "''otra''"]
  by (simp add: spec_rate_def lessThan_nat_numeral lessThan_Suc)

lemma prefix_filter_take: "prefix (filter P (take n ys)) (filter P ys)"
proof -
  have "filter P ys = filter P (take n ys) @ filter P (drop n ys)"
    by (simp add: filter_append [symmetric])
  then show ?thesis by (metis prefixI)
qed

lemma sorted_hd_min:
  assumes "sorted (map f ys)" "w \<in> set ys"
  shows "f (hd ys) \<le> f w"
proof (cases ys)
  case Nil
  with assms(2) show ?thesis by simp
next
  case (Cons y ys')
  with assms show ?thesis by auto
qed

lemma top_combos_props:
  fixes combos :: "real list list" and sections :: "section_rec list" and target :: real
  defines "key \<equiv> ranking_key sections target"
  defines "res \<equiv> top_combos combos sections target"
  shows "length res = min 3 (length combos)"
    and "sorted (map key res)"
    and "prefix (filter (\<lambda>v. key v = d) res) (filter (\<lambda>v. key v = d) combos)"
    and "set res \<subseteq> set combos"
    and "combos \<noteq> [] \<Longrightarrow> res \<noteq> [] \<and> (\<forall>w\<in>set combos. key (hd res) \<le> key w)"
proof -
  let ?ys = "sort_key key combos"
  have res: "res = take 3 ?ys" by (simp add: res_def key_def top_combos_def py_sorted_def)
  show "length res = min 3 (length combos)" by (simp add: res min.commute)
  have s: "sorted (map key ?ys)" by (rule sorted_sort_key)
  have "map key res = take 3 (map key ?ys)" by (simp add: res take_map)
  then show "sorted (map key res)" using s sorted_wrt_take by metis
  have "prefix (filter (\<lambda>v. key v = d) res) (filter (\<lambda>v. key v = d) ?ys)"
    unfolding res by (rule prefix_filter_take)
  then show "prefix (filter (\<lambda>v. key v = d) res) (filter (\<lambda>v. key v = d) combos)"
    by (simp add: sort_key_stable)
  show "set res \<subseteq> set combos" using set_take_subset [of 3 ?ys] by (simp add: res)
  assume ne: "combos \<noteq> []"
  then have ne': "?ys \<noteq> []" by (metis length_sort length_0_conv)
  then have h: "hd res = hd ?ys" by (simp add: res)
  have "\<forall>w\<in>set combos. key (hd res) \<le> key w"
    using sorted_hd_min [OF s] h by simp
  moreover have "res \<noteq> []" using ne' by (simp add: res)
  ultimately show "res \<noteq> [] \<and> (\<forall>w\<in>set combos. key (hd res) \<le> key w)" by simp
qed

text \<open>
  Claim C8. The ranking step returns at most three of the vectors, in non-decreasing order
  of \<open>abs(revenue - target)\<close> with the revenue taken at the rate 0.95 whatever the
  scenario; vectors of equal distance keep the order they had; and the first vector
  returned has the least distance of all the vectors given.
\<close>

theorem ranking_top_three:
  "length (top_combos combos sections target) \<le> 3 \<and>
   length (top_combos combos sections target) = min 3 (length combos) \<and>
   set (top_combos combos sections target) \<subseteq> set combos \<and>
   sorted (map (ranking_key sections target) (top_combos combos sections target)) \<and>
   (\<forall>d. prefix (filter (\<lambda>v. ranking_key sections target v = d) (top_combos combos sections target))
              (filter (\<lambda>v. ranking_key sections target v = d) combos)) \<and>
   (combos \<noteq> [] \<longrightarrow>
      top_combos combos sections target \<noteq> [] \<and>
      (\<forall>w\<in>set combos. ranking_key sections target (hd (top_combos combos sections target))
                         \<le> ranking_key sections target w)) \<and>
   (\<forall>v. ranking_key sections target v =
      \<bar>(\<Sum>i<min (length v) (length sections). real_of_int (seats (sections ! i)) * 0.95 * v ! i)
         - target\<bar>)"
  using top_combos_props [where combos = combos and sections = sections and target = target]
    ranking_key_formula [of sections target]
  by simp

lemma ranking_example:
  "top_combos [[200, 325 / 2, 50], [200, 725 / 4, 50], [200, 110, 50], [200, 90, 50]]
     [\<lparr>name = ''A'', seats = 500\<rparr>, \<lparr>name = ''B'', seats = 500\<rparr>, \<lparr>name = ''C'', seats = 500\<rparr>] 166250
   = [[200, 110, 50], [200, 90, 50], [200, 325 / 2, 50]]"
  by (simp add: top_combos_def py_sorted_def ranking_key_def py_sum_def)

theorem ranking_top_three_witness:
  "top_combos [[200, 325 / 2, 50], [200, 725 / 4, 50], [200, 110, 50], [200, 90, 50]]
     [\<lparr>name = ''A'', seats = 500\<rparr>, \<lparr>name = ''B'', seats = 500\<rparr>, \<lparr>name = ''C'', seats = 500\<rparr>] 166250
   = [[200, 110, 50], [200, 90, 50], [200, 325 / 2, 50]] \<and>
   ranking_key [\<lparr>name = ''A'', seats = 500\<rparr>, \<lparr>name = ''B'', seats = 500\<rparr>, \<lparr>name = ''C'', seats = 500\<rparr>]
     166250 [200, 110, 50] = 4750 \<and>
   ranking_key [\<lparr>name = ''A'', seats = 500\<rparr>, \<lparr>name = ''B'', seats = 500\<rparr>, \<lparr>name = ''C'', seats = 500\<rparr>]
     166250 [200, 90, 50] = 4750 \<and>
   ranking_key [\<lparr>name = ''A'', seats = 500\<rparr>, \<lparr>name = ''B'', seats = 500\<rparr>, \<lparr>name = ''C'', seats = 500\<rparr>]
     166250 [200, 325 / 2, 50] = 29687.5"
proof -
  let ?secs = "[\<lparr>name = ''A'', seats = 500\<rparr>, \<lparr>name = ''B'', seats = 500\<rparr>, \<lparr>name = ''C'', seats = 500\<rparr>]"
  let ?combos = "[[200, 325 / 2, 50], [200, 725 / 4, 50], [200, 110, 50], [200, 90, 50 :: real]]"
  have k: "ranking_key ?secs 166250 v =
      \<bar>(\<Sum>i<min (length v) (length ?secs). real_of_int (seats (?secs ! i)) * 0.95 * v ! i) - 166250\<bar>" for v
    using ranking_top_three [of ?combos ?secs 166250] by blast
  have "ranking_key ?secs 166250 [200, 110, 50] = 4750"
    "ranking_key ?secs 166250 [200, 90, 50] = 4750"
    "ranking_key ?secs 166250 [200, 325 / 2, 50] = 29687.5"
    unfolding k by (simp_all add: lessThan_nat_numeral lessThan_Suc)
  then show ?thesis using ranking_example by simp
qed

section \<open>Prices and the bounds\<close>





































lemma PM_candidates_degenerate:
  "global_max = global_min \<Longrightarrow> PM_generate_candidate_prices global_min global_max scenario = [global_min]"
  by (simp add: PM_generate_candidate_prices_def)

lemma APB_candidates_degenerate:
  "global_max \<le> global_min \<Longrightarrow> APB_generate_candidate_prices global_min global_max scenario = [global_min]"
  by (simp add: APB_generate_candidate_prices_def)

text \<open>
  Claim C3. The candidate generator returns \<open>[global_min]\<close> whenever
  \<open>global_max <= global_min\<close>. The generator of \<^verbatim>\<open>appPricingBoletos.py\<close> does; the one
  of \<^verbatim>\<open>PricingMaster.py\<close> does so for equal bounds only, and at
  \<open>global_min = 100\<close>, \<open>global_max = 50\<close> returns the last three points of a descending
  grid.
\<close>

theorem PM_candidates_inverted_bounds:
  "PM_generate_candidate_prices 100 50 ''alta'' = [125 / 2, 225 / 4, 50] \<and>
   PM_generate_candidate_prices 100 50 ''alta'' \<noteq> [100] \<and>
   APB_generate_candidate_prices 100 50 ''alta'' = [100]"
  by (simp add: PM_candidates_eq_spec APB_candidates_degenerate spec_window_def spec_grid_def
      round2_def round_half_even_def)

end
